theory Spec2Isabelle
  imports Complex_Main
begin

section \<open>The transport state machine of MIDIplayer.py\<close>

text \<open>
  The class \<open>MIDIPlayer\<close> is embedded as a record of its attributes and one function
  per method, each taking the player and returning the updated player together with what
  the method returns. Three things the methods read from outside are made arguments:
  \<^item> the wall clock: every \<open>time.time()\<close> is an argument \<open>now\<close>;
  \<^item> the file system and the parser: \<open>load_midi_file\<close> takes what is found at the path;
  \<^item> the mixer: whether \<open>pygame.mixer.music.load\<close> succeeds.

  Python's floats (clock readings, positions, tempi) are taken as exact reals: rounding is
  not part of the model. The one place where a float that is not a number decides a
  property, the test of \<open>set_bpm\<close>, is embedded a second time over floats.

  The class takes no lock. The tracking thread is therefore embedded step by step, cut
  at the lines where it reads or writes an attribute, and a method call can come between
  any two of its steps. A method call itself runs as one step between two steps of the
  thread; \<open>stop\<close> is the exception, since the thread runs on while \<open>stop\<close> waits in its join.
\<close>

subsection \<open>Data\<close>

text \<open>What the player uses of a parsed file (\<open>pretty_midi.PrettyMIDI\<close>):
  \<open>get_end_time()\<close> and the tempo array \<open>get_tempo_changes()[1]\<close>.\<close>

record midi =
  end_time :: real
  tempi :: "real list"

text \<open>What \<open>load_midi_file\<close> finds at a path: nothing (\<open>os.path.exists\<close> is false), a
  file the parser rejects with an exception, or a performance.\<close>

datatype midi_file = Missing | Unparseable | Midi midi

text \<open>The tracking thread: alive inside its loop, with the local \<open>total_duration\<close> it
  computed before entering the loop, or finished.\<close>

datatype thread = Running real | Finished

text \<open>Where a live tracking thread stands in the loop of \<open>_play_worker\<close>: before the loop
  test (line 131), before the test of \<open>is_paused\<close> (line 132), before the update of the
  position (lines 134 and 135), before the comparison with \<open>total_duration\<close> (line 138),
  before the assignment \<open>is_playing = False\<close> and the \<open>break\<close> (lines 139 to 141), or before
  the sleep (line 143).\<close>

datatype pc = AtLoopTest | AtPausedTest | AtUpdate | AtEndTest | AtAutoStop | AtSleep

text \<open>Calls that leave the player: to \<open>pygame.mixer.music\<close> and to the thread object
  (\<open>ThreadJoin t\<close> is \<open>join(timeout=t)\<close>). They are appended to the field \<open>effects\<close>,
  which the Python class does not have; it only records the order of the calls. The
  field \<open>worker_pc\<close> is not an attribute either: it is the place of the thread held in
  \<open>play_thread\<close>, which in Python belongs to the thread.\<close>

datatype effect =
    MixerLoad string | MixerPlay | MixerPause | MixerUnpause | MixerStop
  | ThreadStart | ThreadJoin real

datatype py_exn = ValueError | ZeroDivisionError

datatype 'a outcome = Returns 'a | Raises py_exn

record player =
  midi_data :: "midi option"
  original_bpm :: real
  current_bpm :: real
  is_playing :: bool
  is_paused :: bool
  play_thread :: "thread option"
  start_time :: real
  pause_time :: real
  current_position :: real
  current_file_path :: "string option"
  audio_enabled :: bool
  worker_pc :: pc
  effects :: "effect list"

text \<open>The dictionary returned by \<open>get_status\<close>, one field per key.\<close>

record status =
  status_is_playing :: bool
  status_is_paused :: bool
  status_current_position :: real
  status_current_bpm :: real
  status_original_bpm :: real
  status_audio_enabled :: bool
  status_duration :: real
  status_file_loaded :: bool
  status_file_name :: "string option"

subsection \<open>Construction, loading, tempo\<close>

text \<open>\<open>__init__\<close>; the argument says whether \<open>pygame.mixer.init()\<close> succeeded.\<close>

definition MIDIPlayer_init :: "bool \<Rightarrow> player" where
  "MIDIPlayer_init mixer_ok =
     \<lparr> midi_data = None, original_bpm = 120, current_bpm = 120,
       is_playing = False, is_paused = False, play_thread = None,
       start_time = 0, pause_time = 0, current_position = 0,
       current_file_path = None, audio_enabled = mixer_ok, worker_pc = AtLoopTest,
       effects = [] \<rparr>"

text \<open>\<open>load_midi_file\<close>: every exception is caught and turned into \<open>False\<close>. The path is
  stored before the parser runs, so a file the parser rejects still changes the path.\<close>

definition load_midi_file :: "string \<Rightarrow> midi_file \<Rightarrow> player \<Rightarrow> bool \<times> player" where
  "load_midi_file file_path f s =
     (case f of
        Missing \<Rightarrow> (False, s)
      | Unparseable \<Rightarrow> (False, s\<lparr>current_file_path := Some file_path\<rparr>)
      | Midi m \<Rightarrow>
          (let s1 = s\<lparr>current_file_path := Some file_path\<rparr>;
               s2 = s1\<lparr>midi_data := Some m\<rparr>;
               s3 = (if length (tempi m) > 0
                     then s2\<lparr>original_bpm := hd (tempi m)\<rparr>
                     else s2\<lparr>original_bpm := 120\<rparr>);
               s4 = s3\<lparr>current_bpm := original_bpm s3\<rparr>
           in (True, s4)))"

text \<open>\<open>set_bpm\<close> raises \<open>ValueError\<close> before it assigns anything; otherwise it returns
  \<open>None\<close>.\<close>

definition set_bpm :: "real \<Rightarrow> player \<Rightarrow> unit outcome \<times> player" where
  "set_bpm bpm s =
     (if bpm \<le> 0 then (Raises ValueError, s)
      else (Returns (), s\<lparr>current_bpm := bpm\<rparr>))"

text \<open>The argument of \<open>set_bpm\<close> is a Python float: \<open>main\<close> passes \<open>float(...)\<close> of what
  was typed, which is a number, an infinity or NaN. The comparisons of the source with
  zero, on such a float: every comparison with NaN is false.\<close>

datatype pyfloat = Number real | PosInf | NegInf | NaN

fun float_le_zero :: "pyfloat \<Rightarrow> bool" where
  "float_le_zero (Number r) = (r \<le> 0)"
| "float_le_zero PosInf = False"
| "float_le_zero NegInf = True"
| "float_le_zero NaN = False"

fun float_positive :: "pyfloat \<Rightarrow> bool" where
  "float_positive (Number r) = (0 < r)"
| "float_positive PosInf = True"
| "float_positive NegInf = False"
| "float_positive NaN = False"

text \<open>\<open>set_bpm\<close> once more, over floats, as a function of the one attribute it reads or
  writes, \<open>current_bpm\<close>: the test \<open>bpm <= 0\<close>, the \<open>raise\<close>, the assignment.\<close>

definition set_bpm_float :: "pyfloat \<Rightarrow> pyfloat \<Rightarrow> unit outcome \<times> pyfloat" where
  "set_bpm_float bpm current =
     (if float_le_zero bpm then (Raises ValueError, current)
      else (Returns (), bpm))"

text \<open>\<open>get_tempo_ratio\<close>: Python's \<open>/\<close> raises on a zero divisor. (After a load
  \<open>original_bpm\<close> is a numpy float, whose quotient by zero is an infinity with a warning
  instead; no method stores a zero tempo, so neither happens.)\<close>

definition get_tempo_ratio :: "player \<Rightarrow> real outcome" where
  "get_tempo_ratio s =
     (if current_bpm s = 0 then Raises ZeroDivisionError
      else Returns (original_bpm s / current_bpm s))"

subsection \<open>The mixer\<close>

text \<open>\<open>play_with_pygame\<close>: \<open>pygame.error\<close> is caught; when \<open>load\<close> raises it, \<open>play\<close> is
  not reached.\<close>

definition play_with_pygame :: "string \<Rightarrow> bool \<Rightarrow> player \<Rightarrow> player" where
  "play_with_pygame midi_file_path load_ok s =
     (if \<not> audio_enabled s then s
      else s\<lparr>effects := effects s @ MixerLoad midi_file_path # (if load_ok then [MixerPlay] else [])\<rparr>)"

definition stop_pygame :: "player \<Rightarrow> player" where
  "stop_pygame s =
     (if audio_enabled s then s\<lparr>effects := effects s @ [MixerStop]\<rparr> else s)"

subsection \<open>The tracking thread\<close>

text \<open>The part of \<open>_play_worker\<close> before the loop: it returns at once without a file, dies
  with the exception of \<open>get_tempo_ratio\<close>, or enters the loop with \<open>total_duration\<close>.\<close>

definition play_worker_start :: "player \<Rightarrow> thread" where
  "play_worker_start s =
     (case midi_data s of
        None \<Rightarrow> Finished
      | Some m \<Rightarrow>
          (case get_tempo_ratio s of
             Raises e \<Rightarrow> Finished
           | Returns tempo_ratio \<Rightarrow> Running (end_time m * tempo_ratio)))"

text \<open>One pass of \<open>while self.is_playing: ...\<close>: the loop test and the body, at the clock
  reading \<open>now\<close>. The first component says whether the loop goes on (to the sleep and the
  next test) or is left (the test fails, or \<open>break\<close>).\<close>

definition play_worker_iter :: "real \<Rightarrow> real \<Rightarrow> player \<Rightarrow> bool \<times> player" where
  "play_worker_iter total_duration now s =
     (if is_playing s then
        (if \<not> is_paused s then
           (let current_time = now - start_time s;
                s1 = s\<lparr>current_position := current_time\<rparr>
            in if current_position s1 \<ge> total_duration
               then (False, s1\<lparr>is_playing := False\<rparr>)
               else (True, s1))
         else (True, s))
      else (False, s))"

text \<open>A tick: the thread held in \<open>play_thread\<close>, if it is alive, makes one whole pass, from
  the loop test to the sleep or out of the loop, with no method call in between.\<close>

definition tick :: "real \<Rightarrow> player \<Rightarrow> player" where
  "tick now s =
     (case play_thread s of
        Some (Running total_duration) \<Rightarrow>
          (case play_worker_iter total_duration now s of
             (True, s') \<Rightarrow> s'
           | (False, s') \<Rightarrow> s'\<lparr>play_thread := Some Finished\<rparr>)
      | _ \<Rightarrow> s)"

text \<open>The test \<open>self.play_thread and self.play_thread.is_alive()\<close>.\<close>

fun is_alive :: "thread option \<Rightarrow> bool" where
  "is_alive (Some (Running total_duration)) = True"
| "is_alive (Some Finished) = False"
| "is_alive None = False"

text \<open>One step of the thread held in \<open>play_thread\<close>, from where it stands to the next place
  where it reads or writes an attribute; \<open>now\<close> is the clock reading, used by the step
  that reads the clock. Leaving the loop ends the thread.\<close>

definition worker_step :: "real \<Rightarrow> player \<Rightarrow> player" where
  "worker_step now s =
     (case play_thread s of
        Some (Running total_duration) \<Rightarrow>
          (case worker_pc s of
             AtLoopTest \<Rightarrow>
               if is_playing s then s\<lparr>worker_pc := AtPausedTest\<rparr>
               else s\<lparr>play_thread := Some Finished\<rparr>
           | AtPausedTest \<Rightarrow>
               if \<not> is_paused s then s\<lparr>worker_pc := AtUpdate\<rparr>
               else s\<lparr>worker_pc := AtSleep\<rparr>
           | AtUpdate \<Rightarrow>
               (let current_time = now - start_time s
                in s\<lparr>current_position := current_time, worker_pc := AtEndTest\<rparr>)
           | AtEndTest \<Rightarrow>
               if current_position s \<ge> total_duration then s\<lparr>worker_pc := AtAutoStop\<rparr>
               else s\<lparr>worker_pc := AtSleep\<rparr>
           | AtAutoStop \<Rightarrow>
               s\<lparr>is_playing := False, play_thread := Some Finished, worker_pc := AtLoopTest\<rparr>
           | AtSleep \<Rightarrow> s\<lparr>worker_pc := AtLoopTest\<rparr>)
      | _ \<Rightarrow> s)"

text \<open>The steps of one pass with nothing in between: the first step, then steps until
  the thread is back before the loop test (at most four more).\<close>

fun finish_pass :: "nat \<Rightarrow> real \<Rightarrow> player \<Rightarrow> player" where
  "finish_pass 0 now s = s"
| "finish_pass (Suc n) now s =
     (if worker_pc s = AtLoopTest then s else finish_pass n now (worker_step now s))"

definition worker_pass :: "real \<Rightarrow> player \<Rightarrow> player" where
  "worker_pass now s = finish_pass 4 now (worker_step now s)"

text \<open>The thread running on its own for at most \<open>n\<close> steps, until it has ended: what
  happens while another thread waits in \<open>join\<close> with a timeout.\<close>

fun worker_run :: "nat \<Rightarrow> real \<Rightarrow> player \<Rightarrow> player" where
  "worker_run 0 now s = s"
| "worker_run (Suc n) now s =
     (if is_alive (play_thread s) then worker_run n now (worker_step now s) else s)"


subsection \<open>Transport commands\<close>

text \<open>\<open>play(start_time)\<close>; the argument is called \<open>start\<close> here since \<open>start_time\<close> is also
  the attribute. The new thread runs the start of \<open>_play_worker\<close> on the state \<open>play\<close>
  has just written, and then stands before the loop test.\<close>

definition play :: "real \<Rightarrow> real \<Rightarrow> bool \<Rightarrow> player \<Rightarrow> bool \<times> player" where
  "play now start load_ok s =
     (if midi_data s = None then (False, s)
      else if is_playing s then (False, s)
      else
        (let s1 = s\<lparr>is_playing := True, is_paused := False,
                    current_position := start, start_time := now - start\<rparr>;
             s2 = (case current_file_path s1 of
                     Some p \<Rightarrow> if p \<noteq> [] \<and> audio_enabled s1
                               then play_with_pygame p load_ok s1 else s1
                   | None \<Rightarrow> s1);
             s3 = s2\<lparr>play_thread := Some (play_worker_start s2), worker_pc := AtLoopTest,
                     effects := effects s2 @ [ThreadStart]\<rparr>
         in (True, s3)))"

definition pause :: "real \<Rightarrow> player \<Rightarrow> bool \<times> player" where
  "pause now s =
     (if is_playing s \<and> \<not> is_paused s then
        (let s1 = s\<lparr>is_paused := True, pause_time := now\<rparr>;
             s2 = (if audio_enabled s1 then s1\<lparr>effects := effects s1 @ [MixerPause]\<rparr> else s1)
         in (True, s2))
      else (False, s))"

definition resume :: "real \<Rightarrow> player \<Rightarrow> bool \<times> player" where
  "resume now s =
     (if is_playing s \<and> is_paused s then
        (let pause_duration = now - pause_time s;
             s1 = s\<lparr>start_time := start_time s + pause_duration\<rparr>;
             s2 = s1\<lparr>is_paused := False\<rparr>;
             s3 = (if audio_enabled s2 then s2\<lparr>effects := effects s2 @ [MixerUnpause]\<rparr> else s2)
         in (True, s3))
      else (False, s))"

text \<open>\<open>stop\<close>. The attributes are reset first and the thread is joined last, so the thread
  runs on from where it stands while \<open>stop\<close> waits: within the timeout of one second it
  takes up to five steps, which is as many as it needs to reach the loop test again and
  leave the loop, sleeping a tenth of a second on the way at most once. The argument
  \<open>now\<close> is the clock reading of the thread, should it read the clock in these steps.\<close>

definition stop :: "real \<Rightarrow> player \<Rightarrow> bool \<times> player" where
  "stop now s =
     (if is_playing s then
        (let s1 = s\<lparr>is_playing := False, is_paused := False, current_position := 0\<rparr>;
             s2 = stop_pygame s1;
             s3 = (if is_alive (play_thread s2)
                   then worker_run 5 now (s2\<lparr>effects := effects s2 @ [ThreadJoin 1]\<rparr>)
                   else s2)
         in (True, s3))
      else (False, s))"

text \<open>\<open>os.path.basename\<close> on a POSIX path: what follows the last slash.\<close>

definition basename :: "string \<Rightarrow> string" where
  "basename p = rev (takeWhile (\<lambda>c. c \<noteq> CHR ''/'') (rev p))"

definition get_status :: "player \<Rightarrow> status outcome" where
  "get_status s =
     (let st = \<lparr> status_is_playing = is_playing s, status_is_paused = is_paused s,
                 status_current_position = current_position s,
                 status_current_bpm = current_bpm s, status_original_bpm = original_bpm s,
                 status_audio_enabled = audio_enabled s,
                 status_duration = 0, status_file_loaded = False, status_file_name = None \<rparr>
      in case midi_data s of
           Some m \<Rightarrow>
             (case get_tempo_ratio s of
                Raises e \<Rightarrow> Raises e
              | Returns r \<Rightarrow>
                  Returns (st\<lparr> status_duration := end_time m * r, status_file_loaded := True,
                              status_file_name :=
                                (case current_file_path s of
                                   Some p \<Rightarrow> if p \<noteq> [] then Some (basename p) else Some ''Unknown''
                                 | None \<Rightarrow> Some ''Unknown'') \<rparr>))
         | None \<Rightarrow> Returns st)"

text \<open>\<open>seek\<close>: while playing it is \<open>stop\<close> followed by \<open>play\<close> at the position; the thread
  that \<open>stop\<close> joins reads the clock, if it does, at the reading \<open>now\<close> as well.\<close>

definition seek :: "real \<Rightarrow> real \<Rightarrow> bool \<Rightarrow> player \<Rightarrow> bool outcome \<times> player" where
  "seek now position load_ok s =
     (case midi_data s of
        None \<Rightarrow> (Returns False, s)
      | Some m \<Rightarrow>
          (case get_tempo_ratio s of
             Raises e \<Rightarrow> (Raises e, s)
           | Returns r \<Rightarrow>
               (let max_duration = end_time m * r
                in if position < 0 \<or> position > max_duration then (Returns False, s)
                   else
                     (let was_playing = is_playing s;
                          s1 = (if was_playing then snd (stop now s) else s);
                          s2 = (if was_playing then snd (play now position load_ok s1)
                                else s1\<lparr>current_position := position\<rparr>)
                      in (Returns True, s2)))))"

subsection \<open>Runs\<close>

text \<open>What can happen to a player, one step at a time: a method call with its arguments
  and what it reads from outside, or a step of the tracking thread.\<close>

datatype command =
    LoadMidiFile string midi_file
  | SetBpm real
  | Play real real bool
  | Pause real
  | Resume real
  | Stop real
  | Seek real real bool
  | Step real

fun exec :: "command \<Rightarrow> player \<Rightarrow> player" where
  "exec (LoadMidiFile p f) s = snd (load_midi_file p f s)"
| "exec (SetBpm bpm) s = snd (set_bpm bpm s)"
| "exec (Play now start load_ok) s = snd (play now start load_ok s)"
| "exec (Pause now) s = snd (pause now s)"
| "exec (Resume now) s = snd (resume now s)"
| "exec (Stop now) s = snd (stop now s)"
| "exec (Seek now position load_ok) s = snd (seek now position load_ok s)"
| "exec (Step now) s = worker_step now s"

fun run :: "command list \<Rightarrow> player \<Rightarrow> player" where
  "run [] s = s"
| "run (c # cs) s = run cs (exec c s)"

text \<open>A command that loads only sources that end at a time that is not negative and whose
  first tempo, if any, is positive: what the parser gives for a file.\<close>

fun wellformed_source :: "command \<Rightarrow> bool" where
  "wellformed_source (LoadMidiFile p (Midi m)) =
     (0 \<le> end_time m \<and> (tempi m = [] \<or> 0 < hd (tempi m)))"
| "wellformed_source c = True"

subsection \<open>Invariants\<close>

text \<open>Both tempi are positive, the loaded source does not end before zero, and a playing
  player has a live tracking thread.\<close>

definition player_ok :: "player \<Rightarrow> bool" where
  "player_ok s =
     (0 < original_bpm s \<and> 0 < current_bpm s \<and>
      (case midi_data s of Some m \<Rightarrow> 0 \<le> end_time m | None \<Rightarrow> True) \<and>
      (is_playing s \<longrightarrow> is_alive (play_thread s)))"


text \<open>\<open>is_paused\<close> is only set while \<open>is_playing\<close> is.\<close>

definition flags_ok :: "player \<Rightarrow> bool" where
  "flags_ok s = (is_paused s \<longrightarrow> is_playing s)"

subsection \<open>Sample players\<close>

text \<open>A source of ten seconds at 120 beats per minute, and a source without any tempo.\<close>

definition song :: midi where
  "song = \<lparr> end_time = 10, tempi = [120] \<rparr>"

definition etude :: midi where
  "etude = \<lparr> end_time = 3, tempi = [] \<rparr>"

text \<open>A fresh player with \<open>song\<close> loaded; the same playing from clock reading 1000; the
  same after a tick at 1004 and a pause at 1004.\<close>

definition loaded_player :: player where
  "loaded_player = snd (load_midi_file ''song.mid'' (Midi song) (MIDIPlayer_init True))"

definition playing_player :: player where
  "playing_player = snd (play 1000 0 True loaded_player)"

definition paused_player :: player where
  "paused_player = snd (pause 1004 (tick 1004 playing_player))"

text \<open>The playing sample player with its thread inside a pass: past the two tests and
  before the update of the position.\<close>

definition player_in_pass :: player where
  "player_in_pass = worker_step 1004 (worker_step 1004 playing_player)"

text \<open>The playing sample player with its thread at the end of the track: the pass at
  clock reading 1010 has found the position 10 to reach the duration 10 and stands
  before \<open>is_playing = False\<close>.\<close>

definition player_at_end :: player where
  "player_at_end =
     worker_step 1010 (worker_step 1010 (worker_step 1010 (worker_step 1010 playing_player)))"


section \<open>Properties\<close>

subsection \<open>The sample players, evaluated\<close>

lemma loaded_player_eq:
  "loaded_player = \<lparr> midi_data = Some song, original_bpm = 120, current_bpm = 120,
       is_playing = False, is_paused = False, play_thread = None,
       start_time = 0, pause_time = 0, current_position = 0,
       current_file_path = Some ''song.mid'', audio_enabled = True, worker_pc = AtLoopTest,
       effects = [] \<rparr>"
  by (simp add: loaded_player_def load_midi_file_def MIDIPlayer_init_def song_def)

lemma playing_player_eq:
  "playing_player = \<lparr> midi_data = Some song, original_bpm = 120, current_bpm = 120,
       is_playing = True, is_paused = False, play_thread = Some (Running 10),
       start_time = 1000, pause_time = 0, current_position = 0,
       current_file_path = Some ''song.mid'', audio_enabled = True, worker_pc = AtLoopTest,
       effects = [MixerLoad ''song.mid'', MixerPlay, ThreadStart] \<rparr>"
  by (simp add: playing_player_def loaded_player_eq play_def play_with_pygame_def
      play_worker_start_def get_tempo_ratio_def song_def)

lemma paused_player_eq:
  "paused_player = \<lparr> midi_data = Some song, original_bpm = 120, current_bpm = 120,
       is_playing = True, is_paused = True, play_thread = Some (Running 10),
       start_time = 1000, pause_time = 1004, current_position = 4,
       current_file_path = Some ''song.mid'', audio_enabled = True, worker_pc = AtLoopTest,
       effects = [MixerLoad ''song.mid'', MixerPlay, ThreadStart, MixerPause] \<rparr>"
  by (simp add: paused_player_def playing_player_eq pause_def tick_def play_worker_iter_def)

lemma player_in_pass_eq:
  "player_in_pass = playing_player\<lparr>worker_pc := AtUpdate\<rparr>"
  by (simp add: player_in_pass_def playing_player_eq worker_step_def)

lemma player_at_end_eq:
  "player_at_end = playing_player\<lparr>current_position := 10, worker_pc := AtAutoStop\<rparr>"
  by (simp add: player_at_end_def playing_player_eq worker_step_def)


subsection \<open>The steps of the tracking thread\<close>

text \<open>A step never writes \<open>is_paused\<close>, and writes \<open>is_playing\<close> only to clear it.\<close>

lemma worker_step_is_paused: "is_paused (worker_step now s) = is_paused s"
  by (simp add: worker_step_def Let_def split: option.splits thread.splits pc.splits)

lemma worker_step_not_playing: "\<not> is_playing s \<Longrightarrow> \<not> is_playing (worker_step now s)"
  by (simp add: worker_step_def Let_def split: option.splits thread.splits pc.splits)

lemma worker_run_is_paused: "is_paused (worker_run n now s) = is_paused s"
  by (induction n arbitrary: s) (simp_all add: worker_step_is_paused)

lemma worker_run_not_playing: "\<not> is_playing s \<Longrightarrow> \<not> is_playing (worker_run n now s)"
  by (induction n arbitrary: s) (simp_all add: worker_step_not_playing)

lemma worker_step_current_bpm: "current_bpm (worker_step now s) = current_bpm s"
  by (simp add: worker_step_def Let_def split: option.splits thread.splits pc.splits)

subsection \<open>Players reached with well-formed sources\<close>

lemma player_ok_init: "player_ok (MIDIPlayer_init mixer_ok)"
  by (simp add: player_ok_def MIDIPlayer_init_def)

lemma player_ok_load:
  "player_ok s \<Longrightarrow> wellformed_source (LoadMidiFile p f) \<Longrightarrow>
   player_ok (snd (load_midi_file p f s))"
  by (cases f) (auto simp: player_ok_def load_midi_file_def Let_def)

lemma player_ok_set_bpm: "player_ok s \<Longrightarrow> player_ok (snd (set_bpm bpm s))"
  by (simp add: player_ok_def set_bpm_def)

lemma player_ok_play: "player_ok s \<Longrightarrow> player_ok (snd (play now start load_ok s))"
  by (auto simp: player_ok_def play_def play_with_pygame_def play_worker_start_def
      get_tempo_ratio_def Let_def split: option.splits)

lemma player_ok_pause: "player_ok s \<Longrightarrow> player_ok (snd (pause now s))"
  by (simp add: player_ok_def pause_def Let_def)

lemma player_ok_resume: "player_ok s \<Longrightarrow> player_ok (snd (resume now s))"
  by (simp add: player_ok_def resume_def Let_def)

lemma player_ok_step: "player_ok s \<Longrightarrow> player_ok (worker_step now s)"
  by (auto simp: player_ok_def worker_step_def Let_def
      split: option.splits thread.splits pc.splits)

lemma player_ok_worker_run: "player_ok s \<Longrightarrow> player_ok (worker_run n now s)"
  by (induction n arbitrary: s) (simp_all add: player_ok_step)

lemma player_ok_stop:
  assumes "player_ok s"
  shows "player_ok (snd (stop now s))"
proof (cases "is_playing s")
  case True
  have reset: "player_ok (x\<lparr>effects := effects x @ [ThreadJoin 1]\<rparr>)"
    if "x = stop_pygame (s\<lparr>is_playing := False, is_paused := False, current_position := 0\<rparr>)"
    for x
    using assms that by (simp add: player_ok_def stop_pygame_def)
  have plain: "player_ok (stop_pygame (s\<lparr>is_playing := False, is_paused := False,
                                        current_position := 0\<rparr>))"
    using assms by (simp add: player_ok_def stop_pygame_def)
  show ?thesis
    using True plain player_ok_worker_run [OF reset [OF refl]]
    by (simp add: stop_def Let_def)
next
  case False
  then show ?thesis
    using assms by (simp add: stop_def)
qed

lemma player_ok_tick: "player_ok s \<Longrightarrow> player_ok (tick now s)"
  by (auto simp: player_ok_def tick_def play_worker_iter_def Let_def
      split: option.splits thread.splits)

lemma player_ok_position: "player_ok s \<Longrightarrow> player_ok (s\<lparr>current_position := x\<rparr>)"
  by (simp add: player_ok_def)

text \<open>What \<open>seek\<close> does to the player: nothing, the position only, or \<open>stop\<close> and \<open>play\<close>.\<close>

lemma seek_cases:
  "snd (seek now x load_ok s) = s \<or>
   snd (seek now x load_ok s) = s\<lparr>current_position := x\<rparr> \<or>
   snd (seek now x load_ok s) = snd (play now x load_ok (snd (stop now s)))"
  by (simp add: seek_def Let_def split: option.splits outcome.splits)

lemma player_ok_seek:
  assumes "player_ok s"
  shows "player_ok (snd (seek now x load_ok s))"
  using seek_cases [of now x load_ok s] assms player_ok_position [OF assms]
    player_ok_play [OF player_ok_stop [OF assms]]
  by auto

lemma player_ok_exec: "player_ok s \<Longrightarrow> wellformed_source c \<Longrightarrow> player_ok (exec c s)"
  by (cases c)
     (simp_all add: player_ok_load player_ok_set_bpm player_ok_play player_ok_pause
        player_ok_resume player_ok_stop player_ok_seek player_ok_step
        del: wellformed_source.simps)

lemma player_ok_run:
  "player_ok s \<Longrightarrow> list_all wellformed_source cs \<Longrightarrow> player_ok (run cs s)"
  by (induction cs arbitrary: s) (simp_all add: player_ok_exec)

lemma player_ok_duration:
  "player_ok s \<Longrightarrow> midi_data s = Some m \<Longrightarrow>
   current_bpm s \<noteq> 0 \<and> 0 \<le> end_time m * (original_bpm s / current_bpm s)"
  by (simp add: player_ok_def)

subsection \<open>Pause and resume\<close>

text \<open>
  Claim C1. In a state that is playing and paused, \<open>resume\<close> returns \<open>True\<close>, moves
  \<open>start_time\<close> forward by exactly \<open>now - pause_time\<close> and clears \<open>is_paused\<close>, so the
  position \<open>now - start_time\<close> right after it is the position \<open>pause_time - start_time\<close> at
  which the pause began. For the round trip from a playing state: pausing at \<open>t_pause\<close>
  and resuming at \<open>t_resume\<close> leaves \<open>t_resume - start_time\<close> equal to what
  \<open>t_pause - start_time\<close> was, and a pass of the tracking loop right after the resume
  writes the position that a pass at the instant of the pause would have written.
\<close>

theorem resume_continuous:
  "(is_playing s \<and> is_paused s \<longrightarrow>
      fst (resume now s) = True \<and>
      start_time (snd (resume now s)) = start_time s + (now - pause_time s) \<and>
      \<not> is_paused (snd (resume now s)) \<and>
      is_playing (snd (resume now s)) \<and>
      now - start_time (snd (resume now s)) = pause_time s - start_time s) \<and>
   (is_playing s \<and> \<not> is_paused s \<longrightarrow>
      fst (pause t_pause s) = True \<and>
      fst (resume t_resume (snd (pause t_pause s))) = True \<and>
      t_resume - start_time (snd (resume t_resume (snd (pause t_pause s))))
        = t_pause - start_time s \<and>
      current_position
          (snd (play_worker_iter d t_resume (snd (resume t_resume (snd (pause t_pause s))))))
        = current_position (snd (play_worker_iter d t_pause s)))"
  by (simp add: resume_def pause_def play_worker_iter_def Let_def)

text \<open>At the sample players: paused at 1004 after starting at 1000, resumed at 1010.\<close>

theorem resume_continuous_witness:
  "is_playing paused_player \<and> is_paused paused_player \<and>
   fst (resume 1010 paused_player) = True \<and>
   start_time (snd (resume 1010 paused_player)) = 1006 \<and>
   \<not> is_paused (snd (resume 1010 paused_player)) \<and>
   1010 - start_time (snd (resume 1010 paused_player)) = 4 \<and>
   pause_time paused_player - start_time paused_player = 4 \<and>
   is_playing playing_player \<and> \<not> is_paused playing_player \<and>
   1010 - start_time (snd (resume 1010 (snd (pause 1004 playing_player)))) = 4 \<and>
   current_position
     (snd (play_worker_iter 10 1010 (snd (resume 1010 (snd (pause 1004 playing_player)))))) = 4"
proof -
  have h1: "is_playing paused_player \<and> is_paused paused_player"
    by (simp add: paused_player_eq)
  have h2: "is_playing playing_player \<and> \<not> is_paused playing_player"
    by (simp add: playing_player_eq)
  have v1: "start_time paused_player = 1000 \<and> pause_time paused_player = 1004"
    by (simp add: paused_player_eq)
  have v2: "start_time playing_player = 1000 \<and>
            current_position (snd (play_worker_iter 10 1004 playing_player)) = 4"
    by (simp add: playing_player_eq play_worker_iter_def)
  show ?thesis
    using h1 h2 v1 v2
      resume_continuous [of paused_player 1010 0 0 0]
      resume_continuous [of playing_player 0 1004 1010 10]
    by simp
qed

subsection \<open>Loading\<close>

text \<open>
  Claim C2, as stated, fails: a successful \<open>load_midi_file\<close> does not reset the transport.
  Loading into the player that is paused at position 4 succeeds and leaves it playing,
  paused and at position 4.
\<close>

theorem load_resets_counterexample:
  "fst (load_midi_file ''etude.mid'' (Midi etude) paused_player) = True \<and>
   is_playing (snd (load_midi_file ''etude.mid'' (Midi etude) paused_player)) \<and>
   is_paused (snd (load_midi_file ''etude.mid'' (Midi etude) paused_player)) \<and>
   current_position (snd (load_midi_file ''etude.mid'' (Midi etude) paused_player)) = 4"
  by (simp add: load_midi_file_def paused_player_eq etude_def)

text \<open>
  Claim C2, amended. A successful \<open>load_midi_file\<close> stores the new source, sets
  \<open>original_bpm\<close> to its first tempo (120 when it has none) and \<open>current_bpm\<close> to
  \<open>original_bpm\<close>, so the duration \<open>get_status\<close> reports is recomputed from the new source
  (it is the source's end time, the ratio of two equal tempi being 1); it leaves
  \<open>is_playing\<close>, \<open>is_paused\<close> and \<open>current_position\<close> as they were.
\<close>

theorem load_midi_file_spec:
  "load_midi_file p f s = (True, s') \<longrightarrow>
     (\<exists>m. f = Midi m \<and> midi_data s' = Some m \<and>
          original_bpm s' = (if tempi m = [] then 120 else hd (tempi m)) \<and>
          (current_bpm s' \<noteq> 0 \<longrightarrow>
             (\<exists>st. get_status s' = Returns st \<and> status_file_loaded st \<and>
                   status_duration st = end_time m * (original_bpm s' / current_bpm s') \<and>
                   status_duration st = end_time m))) \<and>
     current_bpm s' = original_bpm s' \<and>
     is_playing s' = is_playing s \<and>
     is_paused s' = is_paused s \<and>
     current_position s' = current_position s"
  by (cases f) (auto simp: load_midi_file_def get_status_def get_tempo_ratio_def Let_def)

text \<open>At the paused sample player, loading the source that has no tempo.\<close>

theorem load_midi_file_spec_witness:
  "load_midi_file ''etude.mid'' (Midi etude) paused_player
     = (True, paused_player\<lparr>current_file_path := Some ''etude.mid'', midi_data := Some etude\<rparr>) \<and>
   original_bpm (paused_player\<lparr>current_file_path := Some ''etude.mid'', midi_data := Some etude\<rparr>) = 120 \<and>
   current_bpm (paused_player\<lparr>current_file_path := Some ''etude.mid'', midi_data := Some etude\<rparr>) = 120 \<and>
   is_playing (paused_player\<lparr>current_file_path := Some ''etude.mid'', midi_data := Some etude\<rparr>) \<and>
   is_paused (paused_player\<lparr>current_file_path := Some ''etude.mid'', midi_data := Some etude\<rparr>) \<and>
   current_position (paused_player\<lparr>current_file_path := Some ''etude.mid'', midi_data := Some etude\<rparr>) = 4"
proof -
  have h: "load_midi_file ''etude.mid'' (Midi etude) paused_player
     = (True, paused_player\<lparr>current_file_path := Some ''etude.mid'', midi_data := Some etude\<rparr>)"
    by (simp add: load_midi_file_def paused_player_eq etude_def)
  have v: "tempi etude = [] \<and> is_playing paused_player \<and> is_paused paused_player \<and>
           current_position paused_player = 4"
    by (simp add: etude_def paused_player_eq)
  show ?thesis
    using h v load_midi_file_spec [of "''etude.mid''" "Midi etude" paused_player
        "paused_player\<lparr>current_file_path := Some ''etude.mid'', midi_data := Some etude\<rparr>"]
    by simp
qed

subsection \<open>The tracking thread\<close>



subsection \<open>Play\<close>

text \<open>
  Claim C4. \<open>play\<close> returns \<open>False\<close> and leaves the player exactly as it was when no
  source is loaded, and likewise when the player is already playing. Otherwise it returns
  \<open>True\<close> and sets \<open>is_playing\<close>, clears \<open>is_paused\<close>, sets \<open>current_position\<close> to the
  requested position and \<open>start_time\<close> to \<open>now\<close> minus that position, so that
  \<open>now - start_time\<close> is the requested position.
\<close>

theorem play_spec:
  "(midi_data s = None \<longrightarrow> play now start load_ok s = (False, s)) \<and>
   (is_playing s \<longrightarrow> play now start load_ok s = (False, s)) \<and>
   (midi_data s \<noteq> None \<and> \<not> is_playing s \<longrightarrow>
      fst (play now start load_ok s) = True \<and>
      is_playing (snd (play now start load_ok s)) \<and>
      \<not> is_paused (snd (play now start load_ok s)) \<and>
      current_position (snd (play now start load_ok s)) = start \<and>
      start_time (snd (play now start load_ok s)) = now - start \<and>
      now - start_time (snd (play now start load_ok s)) = start)"
  by (simp add: play_def Let_def play_with_pygame_def split: option.splits)

text \<open>At a fresh player, at the playing sample player, and at the loaded one.\<close>

theorem play_spec_witness:
  "midi_data (MIDIPlayer_init True) = None \<and>
   play 1000 0 True (MIDIPlayer_init True) = (False, MIDIPlayer_init True) \<and>
   is_playing playing_player \<and>
   play 1001 0 True playing_player = (False, playing_player) \<and>
   midi_data loaded_player \<noteq> None \<and> \<not> is_playing loaded_player \<and>
   fst (play 1000 3 True loaded_player) = True \<and>
   is_playing (snd (play 1000 3 True loaded_player)) \<and>
   \<not> is_paused (snd (play 1000 3 True loaded_player)) \<and>
   current_position (snd (play 1000 3 True loaded_player)) = 3 \<and>
   start_time (snd (play 1000 3 True loaded_player)) = 997 \<and>
   1000 - start_time (snd (play 1000 3 True loaded_player)) = 3"
proof -
  have h0: "midi_data (MIDIPlayer_init True) = None"
    by (simp add: MIDIPlayer_init_def)
  have h1: "is_playing playing_player"
    by (simp add: playing_player_eq)
  have h2: "midi_data loaded_player \<noteq> None \<and> \<not> is_playing loaded_player"
    by (simp add: loaded_player_eq)
  show ?thesis
    using h0 h1 h2
      play_spec [of "MIDIPlayer_init True" 1000 0 True]
      play_spec [of playing_player 1001 0 True]
      play_spec [of loaded_player 1000 3 True]
    by simp
qed

subsection \<open>Seek\<close>

text \<open>
  Claim C5. With a source loaded (and a tempo that is not zero, so that the tempo ratio
  exists), \<open>seek\<close> at a position below zero or above the scaled duration returns \<open>False\<close>
  and leaves the player, hence \<open>current_position\<close>, as it was; \<open>seek\<close> at the scaled
  duration itself returns \<open>True\<close> (the scaled duration being non-negative); and when
  the player is not playing, \<open>seek\<close> at a position in range returns \<open>True\<close>, sets
  \<open>current_position\<close> to it and changes nothing else, so the player is still not playing.
  After any sequence of steps from a new player that loads well-formed sources only, the
  tempo is not zero and the scaled duration is not negative, so there \<open>seek\<close> at the
  scaled duration returns \<open>True\<close> without further condition.
\<close>

theorem seek_spec:
  "midi_data s = Some m \<and> current_bpm s \<noteq> 0 \<longrightarrow>
     ((x < 0 \<or> x > end_time m * (original_bpm s / current_bpm s) \<longrightarrow>
         seek now x load_ok s = (Returns False, s)) \<and>
      (0 \<le> end_time m * (original_bpm s / current_bpm s) \<longrightarrow>
         fst (seek now (end_time m * (original_bpm s / current_bpm s)) load_ok s) = Returns True) \<and>
      (\<not> is_playing s \<and> 0 \<le> x \<and> x \<le> end_time m * (original_bpm s / current_bpm s) \<longrightarrow>
         seek now x load_ok s = (Returns True, s\<lparr>current_position := x\<rparr>) \<and>
         \<not> is_playing (snd (seek now x load_ok s)))) \<and>
   (list_all wellformed_source cs \<and> midi_data (run cs (MIDIPlayer_init mixer_ok)) = Some m \<longrightarrow>
      current_bpm (run cs (MIDIPlayer_init mixer_ok)) \<noteq> 0 \<and>
      fst (seek now
             (end_time m * (original_bpm (run cs (MIDIPlayer_init mixer_ok))
                            / current_bpm (run cs (MIDIPlayer_init mixer_ok))))
             load_ok (run cs (MIDIPlayer_init mixer_ok))) = Returns True)"
proof -
  have direct: "midi_data s = Some m \<and> current_bpm s \<noteq> 0 \<longrightarrow>
     ((x < 0 \<or> x > end_time m * (original_bpm s / current_bpm s) \<longrightarrow>
         seek now x load_ok s = (Returns False, s)) \<and>
      (0 \<le> end_time m * (original_bpm s / current_bpm s) \<longrightarrow>
         fst (seek now (end_time m * (original_bpm s / current_bpm s)) load_ok s) = Returns True) \<and>
      (\<not> is_playing s \<and> 0 \<le> x \<and> x \<le> end_time m * (original_bpm s / current_bpm s) \<longrightarrow>
         seek now x load_ok s = (Returns True, s\<lparr>current_position := x\<rparr>) \<and>
         \<not> is_playing (snd (seek now x load_ok s))))" for s
    by (auto simp: seek_def get_tempo_ratio_def Let_def)
  have reached: "current_bpm (run cs (MIDIPlayer_init mixer_ok)) \<noteq> 0 \<and>
      fst (seek now
             (end_time m * (original_bpm (run cs (MIDIPlayer_init mixer_ok))
                            / current_bpm (run cs (MIDIPlayer_init mixer_ok))))
             load_ok (run cs (MIDIPlayer_init mixer_ok))) = Returns True"
    if wf: "list_all wellformed_source cs"
      and m: "midi_data (run cs (MIDIPlayer_init mixer_ok)) = Some m"
    using player_ok_duration [OF player_ok_run [OF player_ok_init wf] m]
      direct [of "run cs (MIDIPlayer_init mixer_ok)"] m
    by blast
  show ?thesis
    using direct [of s] reached by blast
qed

text \<open>At the loaded sample player, whose scaled duration is 10: positions -1, 11, 10, 4.\<close>

theorem seek_spec_witness:
  "midi_data loaded_player = Some song \<and> current_bpm loaded_player \<noteq> 0 \<and>
   \<not> is_playing loaded_player \<and>
   end_time song * (original_bpm loaded_player / current_bpm loaded_player) = 10 \<and>
   seek 1000 (-1) True loaded_player = (Returns False, loaded_player) \<and>
   seek 1000 11 True loaded_player = (Returns False, loaded_player) \<and>
   fst (seek 1000 10 True loaded_player) = Returns True \<and>
   seek 1000 4 True loaded_player = (Returns True, loaded_player\<lparr>current_position := 4\<rparr>) \<and>
   \<not> is_playing (snd (seek 1000 4 True loaded_player)) \<and>
   list_all wellformed_source [LoadMidiFile ''song.mid'' (Midi song)] \<and>
   midi_data (run [LoadMidiFile ''song.mid'' (Midi song)] (MIDIPlayer_init True)) = Some song"
proof -
  have r: "run [LoadMidiFile ''song.mid'' (Midi song)] (MIDIPlayer_init True) = loaded_player"
    by (simp add: loaded_player_def)
  have w: "list_all wellformed_source [LoadMidiFile ''song.mid'' (Midi song)]"
    by (simp add: song_def)
  have h: "midi_data loaded_player = Some song \<and> current_bpm loaded_player \<noteq> 0 \<and>
           \<not> is_playing loaded_player"
    by (simp add: loaded_player_eq)
  have v: "end_time song * (original_bpm loaded_player / current_bpm loaded_player) = 10"
    by (simp add: loaded_player_eq song_def)
  show ?thesis
    using h v w
      seek_spec [where s = loaded_player and m = song and x = "-1" and now = 1000
        and load_ok = True and cs = "[LoadMidiFile ''song.mid'' (Midi song)]"
        and mixer_ok = True]
      seek_spec [where s = loaded_player and m = song and x = 11 and now = 1000
        and load_ok = True and cs = "[]" and mixer_ok = True]
      seek_spec [where s = loaded_player and m = song and x = 4 and now = 1000
        and load_ok = True and cs = "[]" and mixer_ok = True]
    unfolding r by simp
qed

subsection \<open>Tempo\<close>

text \<open>
  Claim C6, as stated, fails: \<open>set_bpm\<close> does not report a tempo that is not positive by
  a result it returns; it raises \<open>ValueError\<close>.
\<close>

theorem set_bpm_result_counterexample:
  "fst (set_bpm 0 loaded_player) = Raises ValueError \<and>
   fst (set_bpm 0 loaded_player) \<noteq> Returns ()"
  by (simp add: set_bpm_def)

text \<open>
  Claim C6, amended. For every tempo that is not positive, \<open>set_bpm\<close> raises
  \<open>ValueError\<close> and leaves the player, hence the tempo, as it was. For every positive
  tempo it returns, and afterwards \<open>current_bpm\<close> is that tempo, the tempo ratio is
  \<open>original_bpm\<close> divided by it, and \<open>get_status\<close> reports that tempo and a duration
  computed with the new ratio (zero without a source). In neither case does \<open>set_bpm\<close>
  change \<open>is_playing\<close> or \<open>is_paused\<close>.
\<close>

theorem set_bpm_spec:
  "(bpm \<le> 0 \<longrightarrow> set_bpm bpm s = (Raises ValueError, s)) \<and>
   (0 < bpm \<longrightarrow>
      fst (set_bpm bpm s) = Returns () \<and>
      current_bpm (snd (set_bpm bpm s)) = bpm \<and>
      get_tempo_ratio (snd (set_bpm bpm s)) = Returns (original_bpm s / bpm) \<and>
      (\<exists>st. get_status (snd (set_bpm bpm s)) = Returns st \<and>
            status_current_bpm st = bpm \<and>
            status_duration st =
              (case midi_data s of
                 Some m \<Rightarrow> end_time m * (original_bpm s / bpm)
               | None \<Rightarrow> 0))) \<and>
   is_playing (snd (set_bpm bpm s)) = is_playing s \<and>
   is_paused (snd (set_bpm bpm s)) = is_paused s"
  by (auto simp: set_bpm_def get_tempo_ratio_def get_status_def Let_def split: option.splits)

text \<open>At the playing sample player: tempi 0, -5 and 60.\<close>

theorem set_bpm_spec_witness:
  "set_bpm 0 playing_player = (Raises ValueError, playing_player) \<and>
   set_bpm (-5) playing_player = (Raises ValueError, playing_player) \<and>
   fst (set_bpm 60 playing_player) = Returns () \<and>
   current_bpm (snd (set_bpm 60 playing_player)) = 60 \<and>
   get_tempo_ratio (snd (set_bpm 60 playing_player)) = Returns 2 \<and>
   is_playing (snd (set_bpm 60 playing_player)) \<and>
   \<not> is_paused (snd (set_bpm 60 playing_player))"
proof -
  have h: "(0::real) \<le> 0 \<and> (-5::real) \<le> 0 \<and> (0::real) < 60"
    by simp
  have v: "original_bpm playing_player = 120 \<and> is_playing playing_player \<and>
           \<not> is_paused playing_player"
    by (simp add: playing_player_eq)
  show ?thesis
    using h v set_bpm_spec [of 0 playing_player] set_bpm_spec [of "-5" playing_player]
      set_bpm_spec [of 60 playing_player]
    by simp
qed

subsection \<open>The join\<close>

text \<open>A thread that has ended takes no step. With \<open>is_playing\<close> cleared, a live thread
  leaves the loop within five steps from wherever it stands.\<close>

lemma worker_run_ended: "\<not> is_alive (play_thread s) \<Longrightarrow> worker_run n now s = s"
  by (cases n) simp_all

lemma run_at_loop_test:
  "\<not> is_playing s \<Longrightarrow> worker_pc s = AtLoopTest \<Longrightarrow>
   \<not> is_alive (play_thread (worker_run (Suc n) now s))"
  by (cases "play_thread s" rule: is_alive.cases)
     (simp_all add: worker_step_def worker_run_ended)

lemma run_at_auto_stop:
  "worker_pc s = AtAutoStop \<Longrightarrow> \<not> is_alive (play_thread (worker_run (Suc n) now s))"
  by (cases "play_thread s" rule: is_alive.cases)
     (simp_all add: worker_step_def worker_run_ended)

lemma run_at_sleep:
  "\<not> is_playing s \<Longrightarrow> worker_pc s = AtSleep \<Longrightarrow>
   \<not> is_alive (play_thread (worker_run (Suc (Suc n)) now s))"
proof (cases "play_thread s" rule: is_alive.cases)
  case (1 d)
  assume a: "\<not> is_playing s" "worker_pc s = AtSleep"
  have "worker_step now s = s\<lparr>worker_pc := AtLoopTest\<rparr>"
    using 1 a by (simp add: worker_step_def)
  then show ?thesis
    using 1 a run_at_loop_test [of "s\<lparr>worker_pc := AtLoopTest\<rparr>" n now] by simp
qed simp_all

lemma run_at_end_test:
  "\<not> is_playing s \<Longrightarrow> worker_pc s = AtEndTest \<Longrightarrow>
   \<not> is_alive (play_thread (worker_run (Suc (Suc (Suc n))) now s))"
proof (cases "play_thread s" rule: is_alive.cases)
  case (1 d)
  assume a: "\<not> is_playing s" "worker_pc s = AtEndTest"
  have "worker_step now s = s\<lparr>worker_pc := AtAutoStop\<rparr> \<or>
        worker_step now s = s\<lparr>worker_pc := AtSleep\<rparr>"
    using 1 a by (simp add: worker_step_def)
  then show ?thesis
    using 1 a run_at_auto_stop [of "s\<lparr>worker_pc := AtAutoStop\<rparr>" "Suc n" now]
      run_at_sleep [of "s\<lparr>worker_pc := AtSleep\<rparr>" n now]
    by auto
qed simp_all

lemma run_at_update:
  "\<not> is_playing s \<Longrightarrow> worker_pc s = AtUpdate \<Longrightarrow>
   \<not> is_alive (play_thread (worker_run (Suc (Suc (Suc (Suc n)))) now s))"
proof (cases "play_thread s" rule: is_alive.cases)
  case (1 d)
  assume a: "\<not> is_playing s" "worker_pc s = AtUpdate"
  have "worker_step now s
          = s\<lparr>current_position := now - start_time s, worker_pc := AtEndTest\<rparr>"
    using 1 a by (simp add: worker_step_def)
  then show ?thesis
    using 1 a
      run_at_end_test [of "s\<lparr>current_position := now - start_time s, worker_pc := AtEndTest\<rparr>"
        n now]
    by simp
qed simp_all

lemma run_at_paused_test:
  "\<not> is_playing s \<Longrightarrow> worker_pc s = AtPausedTest \<Longrightarrow>
   \<not> is_alive (play_thread (worker_run (Suc (Suc (Suc (Suc (Suc n))))) now s))"
proof (cases "play_thread s" rule: is_alive.cases)
  case (1 d)
  assume a: "\<not> is_playing s" "worker_pc s = AtPausedTest"
  have "worker_step now s = s\<lparr>worker_pc := AtUpdate\<rparr> \<or>
        worker_step now s = s\<lparr>worker_pc := AtSleep\<rparr>"
    using 1 a by (simp add: worker_step_def)
  then show ?thesis
    using 1 a run_at_update [of "s\<lparr>worker_pc := AtUpdate\<rparr>" n now]
      run_at_sleep [of "s\<lparr>worker_pc := AtSleep\<rparr>" "Suc (Suc n)" now]
    by auto
qed simp_all

lemma join_finishes:
  assumes "\<not> is_playing s"
  shows "\<not> is_alive (play_thread (worker_run 5 now s))"
proof -
  have five: "(5::nat) = Suc (Suc (Suc (Suc (Suc 0))))"
    by simp
  show ?thesis
    unfolding five
    using assms run_at_loop_test [of s "Suc (Suc (Suc (Suc 0)))" now]
      run_at_auto_stop [of s "Suc (Suc (Suc (Suc 0)))" now]
      run_at_sleep [of s "Suc (Suc (Suc 0))" now]
      run_at_end_test [of s "Suc (Suc 0)" now]
      run_at_update [of s "Suc 0" now]
      run_at_paused_test [of s 0 now]
    by (cases "worker_pc s") blast+
qed

lemma five: "(5::nat) = Suc (Suc (Suc (Suc (Suc 0))))"
  by simp

lemma four: "(4::nat) = Suc (Suc (Suc (Suc 0)))"
  by simp

text \<open>What \<open>stop\<close> does whatever the thread is doing: it refuses when the player is not
  playing; otherwise it returns \<open>True\<close> with both flags cleared and the thread ended.
  When the thread stands before the loop test, the position is 0 afterwards.\<close>

lemma stop_not_playing: "\<not> is_playing s \<Longrightarrow> stop now s = (False, s)"
  by (simp add: stop_def)

lemma stop_playing:
  assumes "is_playing s"
  shows "fst (stop now s) = True \<and> \<not> is_playing (snd (stop now s)) \<and>
         \<not> is_paused (snd (stop now s)) \<and> \<not> is_alive (play_thread (snd (stop now s)))"
proof -
  let ?s2 = "stop_pygame (s\<lparr>is_playing := False, is_paused := False, current_position := 0\<rparr>)"
  let ?s3 = "?s2\<lparr>effects := effects ?s2 @ [ThreadJoin 1]\<rparr>"
  have np: "\<not> is_playing ?s3" "\<not> is_paused ?s3"
    by (simp_all add: stop_pygame_def)
  have np2: "\<not> is_playing ?s2" "\<not> is_paused ?s2"
    by (simp_all add: stop_pygame_def)
  have res: "stop now s = (True, if is_alive (play_thread ?s2) then worker_run 5 now ?s3 else ?s2)"
    using assms by (simp add: stop_def Let_def)
  show ?thesis
    unfolding res
    using np np2 worker_run_not_playing [OF np(1), of 5 now]
      worker_run_is_paused [of 5 now ?s3] join_finishes [OF np(1), of now]
    by (cases "is_alive (play_thread ?s2)") simp_all
qed

lemma stop_between_passes:
  assumes "is_playing s" and "worker_pc s = AtLoopTest"
  shows "current_position (snd (stop now s)) = 0"
proof (cases "play_thread s" rule: is_alive.cases)
  case (1 d)
  then show ?thesis
    using assms
    by (simp add: stop_def stop_pygame_def Let_def five worker_step_def worker_run_ended)
next
  case 2
  then show ?thesis
    using assms by (simp add: stop_def stop_pygame_def Let_def)
next
  case 3
  then show ?thesis
    using assms by (simp add: stop_def stop_pygame_def Let_def)
qed



subsection \<open>Stop\<close>

text \<open>
  Claim C7. \<open>stop\<close> on a player that is not playing returns \<open>False\<close> and changes
  nothing; on a playing player it returns \<open>True\<close>, clears \<open>is_playing\<close> and \<open>is_paused\<close>,
  sets \<open>current_position\<close> to 0 and joins the tracking thread with a timeout of one
  second before it returns. The code does all of this except that the position does not
  always end at 0: \<open>stop\<close> resets the position before it joins, and a thread that has
  passed its two tests when \<open>stop\<close> is called writes the position during the join. At
  the sample player started at 1000, with the thread past its tests (two steps of it from
  the loop test) and reading the clock at 1005: \<open>stop\<close> returns \<open>True\<close>, both flags are
  cleared, the thread has ended and the join is the last call, but \<open>current_position\<close> is
  5. When the pass and \<open>stop\<close> do not overlap, in either order, the position is 0.
\<close>

theorem stop_race:
  "player_in_pass
     = run [LoadMidiFile ''song.mid'' (Midi song), Play 1000 0 True, Step 1004, Step 1004]
         (MIDIPlayer_init True) \<and>
   is_playing player_in_pass \<and> worker_pc player_in_pass = AtUpdate \<and>
   fst (stop 1005 player_in_pass) = True \<and>
   current_position (snd (stop 1005 player_in_pass)) = 5 \<and>
   \<not> is_playing (snd (stop 1005 player_in_pass)) \<and>
   \<not> is_paused (snd (stop 1005 player_in_pass)) \<and>
   play_thread (snd (stop 1005 player_in_pass)) = Some Finished \<and>
   effects (snd (stop 1005 player_in_pass))
     = [MixerLoad ''song.mid'', MixerPlay, ThreadStart, MixerStop, ThreadJoin 1] \<and>
   current_position (snd (stop 1005 (worker_pass 1005 playing_player))) = 0 \<and>
   current_position (worker_pass 1005 (snd (stop 1005 playing_player))) = 0"
proof -
  have r: "run [LoadMidiFile ''song.mid'' (Midi song), Play 1000 0 True, Step 1004, Step 1004]
             (MIDIPlayer_init True) = player_in_pass"
    by (simp add: player_in_pass_def playing_player_def loaded_player_def)
  have race: "stop 1005 player_in_pass
      = (True, playing_player\<lparr>is_playing := False, current_position := 5,
            play_thread := Some Finished,
            effects := [MixerLoad ''song.mid'', MixerPlay, ThreadStart, MixerStop, ThreadJoin 1]\<rparr>)"
    by (simp add: player_in_pass_eq playing_player_eq stop_def stop_pygame_def
        worker_step_def five)
  have pass: "worker_pass 1005 playing_player = playing_player\<lparr>current_position := 5\<rparr>"
    by (simp add: playing_player_eq worker_pass_def worker_step_def four)
  have seq1: "current_position (snd (stop 1005 (worker_pass 1005 playing_player))) = 0"
    unfolding pass
    by (simp add: playing_player_eq stop_def stop_pygame_def worker_step_def five)
  have stopped: "snd (stop 1005 playing_player)
      = playing_player\<lparr>is_playing := False, play_thread := Some Finished,
            effects := [MixerLoad ''song.mid'', MixerPlay, ThreadStart, MixerStop, ThreadJoin 1]\<rparr>"
    by (simp add: playing_player_eq stop_def stop_pygame_def worker_step_def five)
  have seq2: "current_position (worker_pass 1005 (snd (stop 1005 playing_player))) = 0"
    unfolding stopped
    by (simp add: playing_player_eq worker_pass_def worker_step_def four)
  show ?thesis
    unfolding r race using seq1 seq2
    by (simp add: player_in_pass_eq playing_player_eq)
qed

subsection \<open>The flags\<close>

text \<open>Every method call keeps the invariant \<open>flags_ok\<close>, and so does a tick.\<close>

lemma flags_ok_init: "flags_ok (MIDIPlayer_init mixer_ok)"
  by (simp add: flags_ok_def MIDIPlayer_init_def)

lemma flags_ok_load: "flags_ok s \<Longrightarrow> flags_ok (snd (load_midi_file p f s))"
  by (simp add: flags_ok_def load_midi_file_def Let_def split: midi_file.splits)

lemma flags_ok_set_bpm: "flags_ok s \<Longrightarrow> flags_ok (snd (set_bpm bpm s))"
  by (simp add: flags_ok_def set_bpm_def)

lemma flags_ok_play: "flags_ok s \<Longrightarrow> flags_ok (snd (play now start load_ok s))"
  by (simp add: flags_ok_def play_def play_with_pygame_def Let_def split: option.splits)

lemma flags_ok_pause: "flags_ok s \<Longrightarrow> flags_ok (snd (pause now s))"
  by (simp add: flags_ok_def pause_def Let_def)

lemma flags_ok_resume: "flags_ok s \<Longrightarrow> flags_ok (snd (resume now s))"
  by (simp add: flags_ok_def resume_def Let_def)

lemma flags_ok_stop: "flags_ok s \<Longrightarrow> flags_ok (snd (stop now s))"
  using stop_playing [of s now] stop_not_playing [of s now]
  by (cases "is_playing s") (simp_all add: flags_ok_def)

lemma flags_ok_tick: "flags_ok s \<Longrightarrow> flags_ok (tick now s)"
  by (auto simp: flags_ok_def tick_def play_worker_iter_def Let_def
      split: option.splits thread.splits)

lemma flags_ok_seek:
  assumes "flags_ok s"
  shows "flags_ok (snd (seek now x load_ok s))"
proof -
  have "flags_ok (s\<lparr>current_position := x\<rparr>)"
    using assms by (simp add: flags_ok_def)
  then show ?thesis
    using seek_cases [of now x load_ok s] assms flags_ok_play [OF flags_ok_stop [OF assms]]
    by auto
qed

text \<open>
  Claim C8. The invariant that \<open>is_paused\<close> implies \<open>is_playing\<close> holds in a new player
  and is kept by every operation, so that no reachable state is paused without playing.
  The code keeps it under every method call and every whole pass of the tracking thread,
  but not under every schedule: at the end of the track the thread tests the position
  (line 138) and clears \<open>is_playing\<close> (line 140) in two steps, and \<open>pause\<close> can run between
  them. At the sample player started at 1000, with the thread at clock reading 1010
  past that test (four steps of it from the loop test): \<open>pause\<close> returns \<open>True\<close> and
  sets \<open>is_paused\<close>, then the thread clears \<open>is_playing\<close>. The player is paused and not
  playing, \<open>stop\<close> refuses it and leaves it so. When the pass and \<open>pause\<close> do not overlap,
  the player ends neither paused nor playing (the pass first) or both (\<open>pause\<close> first).
\<close>

theorem pause_race:
  "player_at_end
     = run [LoadMidiFile ''song.mid'' (Midi song), Play 1000 0 True,
            Step 1010, Step 1010, Step 1010, Step 1010] (MIDIPlayer_init True) \<and>
   is_playing player_at_end \<and> \<not> is_paused player_at_end \<and>
   worker_pc player_at_end = AtAutoStop \<and>
   fst (pause 1010 player_at_end) = True \<and>
   is_paused (worker_step 1010 (snd (pause 1010 player_at_end))) \<and>
   \<not> is_playing (worker_step 1010 (snd (pause 1010 player_at_end))) \<and>
   stop 1011 (worker_step 1010 (snd (pause 1010 player_at_end)))
     = (False, worker_step 1010 (snd (pause 1010 player_at_end))) \<and>
   \<not> is_paused (snd (pause 1010 (worker_pass 1010 playing_player))) \<and>
   \<not> is_playing (snd (pause 1010 (worker_pass 1010 playing_player))) \<and>
   is_paused (worker_pass 1010 (snd (pause 1010 playing_player))) \<and>
   is_playing (worker_pass 1010 (snd (pause 1010 playing_player)))"
proof -
  have r: "run [LoadMidiFile ''song.mid'' (Midi song), Play 1000 0 True,
            Step 1010, Step 1010, Step 1010, Step 1010] (MIDIPlayer_init True) = player_at_end"
    by (simp add: player_at_end_def playing_player_def loaded_player_def)
  have race: "worker_step 1010 (snd (pause 1010 player_at_end))
      = playing_player\<lparr>is_playing := False, is_paused := True, play_thread := Some Finished,
            pause_time := 1010, current_position := 10,
            effects := [MixerLoad ''song.mid'', MixerPlay, ThreadStart, MixerPause]\<rparr>"
    by (simp add: player_at_end_eq playing_player_eq pause_def worker_step_def)
  have p: "fst (pause 1010 player_at_end) = True"
    by (simp add: player_at_end_eq playing_player_eq pause_def)
  have seq1: "\<not> is_paused (snd (pause 1010 (worker_pass 1010 playing_player))) \<and>
              \<not> is_playing (snd (pause 1010 (worker_pass 1010 playing_player)))"
    by (simp add: playing_player_eq worker_pass_def worker_step_def four pause_def)
  have seq2: "is_paused (worker_pass 1010 (snd (pause 1010 playing_player))) \<and>
              is_playing (worker_pass 1010 (snd (pause 1010 playing_player)))"
    by (simp add: playing_player_eq worker_pass_def worker_step_def four pause_def)
  show ?thesis
    unfolding r race using p seq1 seq2
    by (simp add: player_at_end_eq playing_player_eq stop_def)
qed

subsection \<open>No lock\<close>




subsection \<open>The tempo as a float\<close>

text \<open>On numbers \<open>set_bpm_float\<close> is \<open>set_bpm\<close>. It keeps a tempo positive unless its
  argument is NaN, and it never makes a tempo zero.\<close>

lemma set_bpm_float_number:
  "set_bpm_float (Number bpm) (Number (current_bpm s))
     = (fst (set_bpm bpm s), Number (current_bpm (snd (set_bpm bpm s))))"
  by (simp add: set_bpm_float_def set_bpm_def)

lemma set_bpm_float_positive:
  "float_positive current \<Longrightarrow> bpm \<noteq> NaN \<Longrightarrow> float_positive (snd (set_bpm_float bpm current))"
  by (cases bpm) (auto simp: set_bpm_float_def)

lemma set_bpm_float_not_zero:
  "current \<noteq> Number 0 \<Longrightarrow> snd (set_bpm_float bpm current) \<noteq> Number 0"
  by (cases bpm) (auto simp: set_bpm_float_def)

text \<open>
  Claim C10. The current tempo is strictly positive in every reachable state, since
  \<open>set_bpm\<close> rejects every tempo that is not positive, so that the tempo ratio never
  divides by zero. The test of \<open>set_bpm\<close> is \<open>bpm <= 0\<close>, which is false of NaN: with the
  tempo at 120, \<open>set_bpm\<close> of NaN returns and stores NaN, which is not positive (and not
  zero, so the quotient is still not a division by zero).
\<close>

theorem set_bpm_nan:
  "set_bpm_float NaN (Number 120) = (Returns (), NaN) \<and>
   \<not> float_positive NaN \<and> NaN \<noteq> Number 0"
  by (simp add: set_bpm_float_def)

end
